theory Spec2Isabelle
  imports
    Complex_Main
    "HOL-Library.Multiset"
    "HOL-Library.Char_ord"
    "HOL-Library.List_Lexorder"
    "HOL-Library.Product_Lexorder"
begin

section \<open>Chart data preparation of \<^verbatim>\<open>presenters/chart_generator.py\<close>\<close>

text \<open>
  The module turns per-interval market rows into the traces of a Plotly figure.
  The three public functions are embedded here:
  \<^item> \<^verbatim>\<open>generate_market_chart\<close> (the spec's buildSingleMarketSeries),
  \<^item> \<^verbatim>\<open>generate_multi_market_chart\<close> (buildMultiMarketSeries),
  \<^item> \<^verbatim>\<open>generate_comparison_chart\<close> (buildYoyComparison).

  A figure is modelled by what the code hands to the plotting library: the title, the
  subtitle and the list of traces in the order of the \<^verbatim>\<open>add_trace\<close> calls, each with
  its name, its x and y sequences and its placement. Colours, hover templates and axis
  styling carry no data and are left out of the figure; a hover template that is built
  by \<^verbatim>\<open>str.format\<close> is still evaluated, since its evaluation can raise.
\<close>

subsection \<open>Values\<close>

text \<open>
  A Python exception is a value of \<open>error\<close>. On the inputs modelled here the three
  functions raise the \<^verbatim>\<open>KeyError\<close> of a subscript \<^verbatim>\<open>r['key']\<close> on a dictionary without
  that key, and the \<^verbatim>\<open>KeyError\<close> of \<^verbatim>\<open>str.format\<close> on a replacement field that names no
  keyword argument. \<^verbatim>\<open>ValueError\<close> is what \<^verbatim>\<open>str.format\<close> raises on an unbalanced brace.
\<close>

datatype error = KeyError string | ValueError

text \<open>
  A numeric field holds a Python \<^verbatim>\<open>int\<close> or a finite \<^verbatim>\<open>float\<close>. A float is the real
  number it denotes. Float arithmetic follows IEEE 754: an operation returns the exact
  result, rounded. The rounding function is the parameter \<open>rnd\<close> of the model, so every
  theorem holds for whatever rounding the platform implements. An \<^verbatim>\<open>int\<close> operand of a
  float operation is converted to \<^verbatim>\<open>float\<close> first, which rounds as well. Integers are
  taken to lie within the range of a double, infinities and NaN are not modelled.
\<close>

datatype pynum = PInt int | PFloat real

definition to_float :: "(real \<Rightarrow> real) \<Rightarrow> pynum \<Rightarrow> real" where
  "to_float rnd n = (case n of PInt i \<Rightarrow> rnd (of_int i) | PFloat v \<Rightarrow> v)"

text \<open>\<^verbatim>\<open>n * c\<close> and \<^verbatim>\<open>n / c\<close> for a float literal \<open>c\<close> (here \<open>0.25\<close>, \<open>4.0\<close> and \<open>1000.0\<close>,
  all three exactly representable and non-zero).\<close>

definition py_mul :: "(real \<Rightarrow> real) \<Rightarrow> pynum \<Rightarrow> real \<Rightarrow> pynum" where
  "py_mul rnd n c = PFloat (rnd (to_float rnd n * c))"

definition py_truediv :: "(real \<Rightarrow> real) \<Rightarrow> pynum \<Rightarrow> real \<Rightarrow> pynum" where
  "py_truediv rnd n c = PFloat (rnd (to_float rnd n / c))"

text \<open>\<^verbatim>\<open>n > 0\<close> against the integer literal: exact for both kinds of number.\<close>

definition py_gt_zero :: "pynum \<Rightarrow> bool" where
  "py_gt_zero n = (case n of PInt i \<Rightarrow> 0 < i | PFloat v \<Rightarrow> 0 < v)"

text \<open>\<^verbatim>\<open>str(i)\<close> of an integer, as an f-string field \<^verbatim>\<open>{i}\<close> prints it.\<close>

definition digit_char :: "nat \<Rightarrow> char" where
  "digit_char d = ''0123456789'' ! d"

fun str_nat :: "nat \<Rightarrow> string" where
  "str_nat n = (if n < 10 then [digit_char n] else str_nat (n div 10) @ [digit_char (n mod 10)])"

declare str_nat.simps [simp del]

definition str_int :: "int \<Rightarrow> string" where
  "str_int i = (if i < 0 then CHR ''-'' # str_nat (nat (- i)) else str_nat (nat i))"

subsection \<open>Rows and dictionary access\<close>

text \<open>
  A row is a dictionary with string keys. The model gives each key the code reads the
  type the data model gives it and keeps its presence explicit: \<open>None\<close> is an absent
  key. Dates are ISO strings, which Python compares lexicographically, as
  \<open>List_Lexorder\<close> does on \<open>string\<close>.
\<close>

record row =
  delivery_date :: "string option"
  slot_index :: "int option"
  block_index :: "int option"
  price_avg :: "pynum option"
  mcv_mw :: "pynum option"
  purchase_bid_mw :: "pynum option"
  sell_bid_mw :: "pynum option"

text \<open>\<^verbatim>\<open>d[key]\<close>: raises when the key is absent.\<close>

definition getitem :: "string \<Rightarrow> 'a option \<Rightarrow> error + 'a" where
  "getitem key v = (case v of None \<Rightarrow> Inl (KeyError key) | Some a \<Rightarrow> Inr a)"

text \<open>\<^verbatim>\<open>d.get(key, default)\<close>: never raises.\<close>

definition get_default :: "'a option \<Rightarrow> 'a \<Rightarrow> 'a" where
  "get_default v d = (case v of None \<Rightarrow> d | Some a \<Rightarrow> a)"

text \<open>Sequencing of computations that may raise, and a list comprehension whose element
  expression may raise: the first failing element, in list order, ends it.\<close>

definition bindE :: "'e + 'a \<Rightarrow> ('a \<Rightarrow> 'e + 'b) \<Rightarrow> 'e + 'b" where
  "bindE m f = (case m of Inl e \<Rightarrow> Inl e | Inr a \<Rightarrow> f a)"

fun mapE :: "('a \<Rightarrow> 'e + 'b) \<Rightarrow> 'a list \<Rightarrow> 'e + 'b list" where
  "mapE f [] = Inr []"
| "mapE f (a # as) =
     (case f a of Inl e \<Rightarrow> Inl e
      | Inr b \<Rightarrow> (case mapE f as of Inl e \<Rightarrow> Inl e | Inr bs \<Rightarrow> Inr (b # bs)))"

subsection \<open>Sorting\<close>

text \<open>
  The sort key of both builders is the lambda
  \<^verbatim>\<open>(x['delivery_date'], x.get('block_index', x.get('slot_index', 0)))\<close>.
  It does not read \<^verbatim>\<open>is_quarterly\<close>.
\<close>

definition interval_index :: "row \<Rightarrow> int" where
  "interval_index r = get_default (block_index r) (get_default (slot_index r) 0)"

definition sort_key_of :: "row \<Rightarrow> error + (string \<times> int)" where
  "sort_key_of r =
     bindE (getitem ''delivery_date'' (delivery_date r)) (\<lambda>d. Inr (d, interval_index r))"

text \<open>
  \<^verbatim>\<open>sorted(rows, key=...)\<close> evaluates the key of every element once, in list order, and
  then sorts stably by the keys; tuples compare lexicographically. \<open>sort_key\<close> is the
  stable sort of HOL; a stable sort is determined by its key
  (\<open>properties_for_sort_key\<close>), so it returns what Python's Timsort returns.
\<close>

definition sorted_rows :: "row list \<Rightarrow> error + row list" where
  "sorted_rows rows =
     bindE (mapE sort_key_of rows) (\<lambda>keys. Inr (map snd (sort_key fst (zip keys rows))))"

subsection \<open>Figures\<close>

datatype trace_kind = Bar | Scatter

datatype placement = Plain | SecondaryY bool | Subplot nat nat

record trace =
  trace_kind :: trace_kind
  trace_name :: string
  trace_x :: "string list"
  trace_y :: "pynum list"
  trace_place :: placement
  trace_opacity :: "real option"

record figure =
  fig_title :: string
  fig_subtitle :: string
  fig_traces :: "trace list"

subsection \<open>\<^verbatim>\<open>generate_market_chart\<close>\<close>

text \<open>The five sequences of the data preparation (lines 80 to 90), with the source's
  names.\<close>

record series =
  x_vals :: "string list"
  volumes :: "pynum list"
  prices :: "pynum list"
  buy_bids :: "pynum list"
  sell_bids :: "pynum list"

definition label_quarterly :: "row \<Rightarrow> error + string" where
  "label_quarterly r =
     bindE (getitem ''delivery_date'' (delivery_date r)) (\<lambda>d.
     bindE (getitem ''slot_index'' (slot_index r)) (\<lambda>s.
     Inr (d @ '' S-'' @ str_int s)))"

definition label_hourly :: "row \<Rightarrow> error + string" where
  "label_hourly r =
     bindE (getitem ''delivery_date'' (delivery_date r)) (\<lambda>d.
     Inr (d @ '' H-'' @ str_int (get_default (block_index r) 0)))"

definition labels_of :: "bool \<Rightarrow> row list \<Rightarrow> error + string list" where
  "labels_of is_quarterly rows =
     (if is_quarterly then mapE label_quarterly rows else mapE label_hourly rows)"

definition volume_mwh :: "(real \<Rightarrow> real) \<Rightarrow> bool \<Rightarrow> pynum \<Rightarrow> pynum" where
  "volume_mwh rnd is_quarterly m =
     (if is_quarterly then py_mul rnd m 0.25 else py_truediv rnd m 4.0)"

definition volumes_of :: "(real \<Rightarrow> real) \<Rightarrow> bool \<Rightarrow> row list \<Rightarrow> error + pynum list" where
  "volumes_of rnd is_quarterly rows =
     mapE (\<lambda>r. bindE (getitem ''mcv_mw'' (mcv_mw r)) (\<lambda>m. Inr (volume_mwh rnd is_quarterly m))) rows"

definition prices_of :: "(real \<Rightarrow> real) \<Rightarrow> row list \<Rightarrow> error + pynum list" where
  "prices_of rnd rows =
     mapE (\<lambda>r. bindE (getitem ''price_avg'' (price_avg r)) (\<lambda>p. Inr (py_truediv rnd p 1000.0))) rows"

definition data_prep :: "(real \<Rightarrow> real) \<Rightarrow> row list \<Rightarrow> bool \<Rightarrow> error + series" where
  "data_prep rnd rows is_quarterly =
     bindE (sorted_rows rows) (\<lambda>rows.
     bindE (labels_of is_quarterly rows) (\<lambda>xs.
     bindE (volumes_of rnd is_quarterly rows) (\<lambda>vs.
     bindE (prices_of rnd rows) (\<lambda>ps.
     bindE (mapE (\<lambda>r. getitem ''purchase_bid_mw'' (purchase_bid_mw r)) rows) (\<lambda>bs.
     bindE (mapE (\<lambda>r. getitem ''sell_bid_mw'' (sell_bid_mw r)) rows) (\<lambda>ss.
     Inr \<lparr>x_vals = xs, volumes = vs, prices = ps, buy_bids = bs, sell_bids = ss\<rparr>))))))"

definition market_traces :: "series \<Rightarrow> trace list" where
  "market_traces s =
     [\<lparr>trace_kind = Bar, trace_name = ''Volume'', trace_x = x_vals s, trace_y = volumes s,
       trace_place = SecondaryY False, trace_opacity = None\<rparr>,
      \<lparr>trace_kind = Scatter, trace_name = ''Buy Bids'', trace_x = x_vals s, trace_y = buy_bids s,
       trace_place = SecondaryY True, trace_opacity = None\<rparr>,
      \<lparr>trace_kind = Scatter, trace_name = ''Sell Bids'', trace_x = x_vals s, trace_y = sell_bids s,
       trace_place = SecondaryY True, trace_opacity = None\<rparr>,
      \<lparr>trace_kind = Scatter, trace_name = ''Price'', trace_x = x_vals s, trace_y = prices s,
       trace_place = SecondaryY True, trace_opacity = None\<rparr>]"

text \<open>The result is \<open>Inr None\<close> for Python's \<^verbatim>\<open>None\<close>, \<open>Inr (Some fig)\<close> for a figure and
  \<open>Inl e\<close> for a raised exception.\<close>

definition generate_market_chart ::
  "(real \<Rightarrow> real) \<Rightarrow> string \<Rightarrow> string \<Rightarrow> row list \<Rightarrow> bool \<Rightarrow> error + figure option" where
  "generate_market_chart rnd market_name time_label rows is_quarterly =
     (if rows = [] then Inr None
      else bindE (data_prep rnd rows is_quarterly) (\<lambda>s.
        Inr (Some \<lparr>fig_title = market_name @ '' Price & Volume'', fig_subtitle = time_label,
                   fig_traces = market_traces s\<rparr>)))"

subsection \<open>\<^verbatim>\<open>generate_multi_market_chart\<close>\<close>

text \<open>The dictionary \<^verbatim>\<open>market_data\<close> is iterated in insertion order: it is an
  association list (with distinct keys). \<open>market_trace\<close> is the body of one loop
  iteration for a market with rows.\<close>

definition market_trace :: "(real \<Rightarrow> real) \<Rightarrow> bool \<Rightarrow> string \<Rightarrow> row list \<Rightarrow> error + trace" where
  "market_trace rnd is_quarterly market_name rows =
     bindE (sorted_rows rows) (\<lambda>rows.
     bindE (labels_of is_quarterly rows) (\<lambda>xs.
     bindE (prices_of rnd rows) (\<lambda>ps.
     Inr \<lparr>trace_kind = Scatter, trace_name = market_name, trace_x = xs, trace_y = ps,
          trace_place = Plain, trace_opacity = None\<rparr>)))"

text \<open>The loop, with the traces added so far as its state.\<close>

fun multi_loop ::
  "(real \<Rightarrow> real) \<Rightarrow> bool \<Rightarrow> (string \<times> row list) list \<Rightarrow> trace list \<Rightarrow> error + trace list" where
  "multi_loop rnd is_quarterly [] traces = Inr traces"
| "multi_loop rnd is_quarterly ((market_name, rows) # rest) traces =
     (if rows = [] then multi_loop rnd is_quarterly rest traces
      else (case market_trace rnd is_quarterly market_name rows of
              Inl e \<Rightarrow> Inl e
            | Inr t \<Rightarrow> multi_loop rnd is_quarterly rest (traces @ [t])))"

definition generate_multi_market_chart ::
  "(real \<Rightarrow> real) \<Rightarrow> (string \<times> row list) list \<Rightarrow> string \<Rightarrow> bool \<Rightarrow> error + figure option" where
  "generate_multi_market_chart rnd market_data time_label is_quarterly =
     (if market_data = [] then Inr None
      else bindE (multi_loop rnd is_quarterly market_data []) (\<lambda>traces.
        Inr (Some \<lparr>fig_title = ''Market Comparison'', fig_subtitle = time_label,
                   fig_traces = traces\<rparr>)))"

subsection \<open>\<^verbatim>\<open>generate_comparison_chart\<close>\<close>

record summary =
  total_volume_gwh :: "pynum option"
  twap :: "pynum option"

text \<open>The empty dictionary \<^verbatim>\<open>{}\<close> that \<^verbatim>\<open>.get(market, {})\<close> falls back to.\<close>

definition empty_summary :: summary where
  "empty_summary = \<lparr>total_volume_gwh = None, twap = None\<rparr>"

definition markets :: "string list" where
  "markets = [''DAM'', ''GDAM'', ''RTM'']"

definition bar :: "string \<Rightarrow> string \<Rightarrow> pynum \<Rightarrow> nat \<Rightarrow> real option \<Rightarrow> trace" where
  "bar nm market v col op =
     \<lparr>trace_kind = Bar, trace_name = nm, trace_x = [market], trace_y = [v],
      trace_place = Subplot 1 col, trace_opacity = op\<rparr>"

text \<open>
  \<^verbatim>\<open>template.format(**kwargs)\<close> for templates whose replacement fields are named by
  plain identifiers, as all templates of this module are. The template is read left to
  right. \<^verbatim>\<open>{{\<close> and \<^verbatim>\<open>}}\<close> stand for one brace. A single \<^verbatim>\<open>{\<close> opens a
  replacement field, whose name ends at \<^verbatim>\<open>:\<close>, \<^verbatim>\<open>!\<close> or \<^verbatim>\<open>}\<close>, and which ends at the
  next \<^verbatim>\<open>}\<close>. At the end of a field its name is looked up among the keywords: a name
  that is no keyword raises \<^verbatim>\<open>KeyError(name)\<close>, and nothing after it is read. The value
  found is rendered by \<^verbatim>\<open>str\<close>, which is what an empty format specification does (the
  module passes integers, and puts no format specification on a keyword it passes).
\<close>

datatype format_state = Text | FieldName string | FieldSpec string

definition field_value :: "string \<Rightarrow> (string \<times> int) list \<Rightarrow> error + string" where
  "field_value field_name kwargs =
     (case map_of kwargs field_name of
        None \<Rightarrow> Inl (KeyError field_name)
      | Some v \<Rightarrow> Inr (str_int v))"

fun format_from :: "format_state \<Rightarrow> string \<Rightarrow> (string \<times> int) list \<Rightarrow> error + string" where
  "format_from Text [] kwargs = Inr []"
| "format_from (FieldName n) [] kwargs = Inl ValueError"
| "format_from (FieldSpec n) [] kwargs = Inl ValueError"
| "format_from Text (c # cs) kwargs =
     (if c = CHR ''{'' then
        (case cs of
           [] \<Rightarrow> Inl ValueError
         | d # ds \<Rightarrow>
             if d = CHR ''{'' then bindE (format_from Text ds kwargs) (\<lambda>r. Inr (c # r))
             else format_from (FieldName []) cs kwargs)
      else if c = CHR ''}'' then
        (case cs of
           [] \<Rightarrow> Inl ValueError
         | d # ds \<Rightarrow>
             if d = CHR ''}'' then bindE (format_from Text ds kwargs) (\<lambda>r. Inr (c # r))
             else Inl ValueError)
      else bindE (format_from Text cs kwargs) (\<lambda>r. Inr (c # r)))"
| "format_from (FieldName n) (c # cs) kwargs =
     (if c = CHR ''}'' then
        bindE (field_value n kwargs) (\<lambda>v.
        bindE (format_from Text cs kwargs) (\<lambda>r. Inr (v @ r)))
      else if c = CHR '':'' \<or> c = CHR ''!'' then format_from (FieldSpec n) cs kwargs
      else format_from (FieldName (n @ [c])) cs kwargs)"
| "format_from (FieldSpec n) (c # cs) kwargs =
     (if c = CHR ''}'' then
        bindE (field_value n kwargs) (\<lambda>v.
        bindE (format_from Text cs kwargs) (\<lambda>r. Inr (v @ r)))
      else format_from (FieldSpec n) cs kwargs)"

definition py_format :: "string \<Rightarrow> (string \<times> int) list \<Rightarrow> error + string" where
  "py_format template kwargs = format_from Text template kwargs"

text \<open>
  The hover templates of the two previous-year bars (lines 218 and 244) are plain string
  literals, not f-strings, on which \<^verbatim>\<open>.format(year_minus=year-1)\<close> is called. In the
  second, the three characters after the colon and the space are the UTF-8 bytes of the
  rupee sign. (The templates of the two current-year bars, lines 205 and 231, are
  f-strings with doubled braces; evaluating them raises nothing.)
\<close>

definition prev_volume_template :: string where
  "prev_volume_template = ''%{x} {year_minus}: %{y:.2f} GWh<extra></extra>''"

definition prev_price_template :: string where
  "prev_price_template =
     ''%{x} {year_minus}: '' @ [CHR 0xE2, CHR 0x82, CHR 0xB9] @ ''%{y:.2f}/kWh<extra></extra>''"

text \<open>
  The body of the \<^verbatim>\<open>if\<close> for one included market: four \<^verbatim>\<open>add_trace\<close> calls in source
  order, on the traces added so far. The keyword arguments of each \<^verbatim>\<open>go.Bar\<close> are
  evaluated before the bar exists, so a template that raises ends the body before its
  bar is added. A hover template that is built is styling and is not kept in the
  trace. \<open>curr'\<close> and \<open>prev'\<close> are the source's \<^verbatim>\<open>curr\<close> and \<^verbatim>\<open>prev\<close>.
\<close>

definition market_bars ::
  "summary \<Rightarrow> summary \<Rightarrow> int \<Rightarrow> string \<Rightarrow> trace list \<Rightarrow> error + trace list" where
  "market_bars curr' prev' year market traces =
     (let traces = traces @
            [bar (market @ [CHR 0x20, CHR 0x27] @ str_int year) market
               (get_default (total_volume_gwh curr') (PInt 0)) 1 None]
      in bindE (py_format prev_volume_template [(''year_minus'', year - 1)]) (\<lambda>hover.
      let traces = traces @
            [bar (market @ [CHR 0x20, CHR 0x27] @ str_int (year - 1)) market
               (get_default (total_volume_gwh prev') (PInt 0)) 1 (Some 0.25)];
          traces = traces @
            [bar market market (get_default (twap curr') (PInt 0)) 2 None]
      in bindE (py_format prev_price_template [(''year_minus'', year - 1)]) (\<lambda>hover.
      Inr (traces @
            [bar (market @ '' Prev'') market
               (get_default (twap prev') (PInt 0)) 2 (Some 0.25)]))))"

text \<open>The test of line 196, \<^verbatim>\<open>curr.get('total_volume_gwh', 0) > 0\<close>, as a predicate of the
  market.\<close>

definition included :: "(string \<rightharpoonup> summary) \<Rightarrow> string \<Rightarrow> bool" where
  "included current_data market =
     py_gt_zero (get_default (total_volume_gwh (get_default (current_data market) empty_summary))
       (PInt 0))"

text \<open>The loop over \<^verbatim>\<open>markets\<close>; its state is \<^verbatim>\<open>has_data\<close> and the traces added so far.
  An exception raised in the body ends the loop and the function.\<close>

fun comparison_loop ::
  "(string \<rightharpoonup> summary) \<Rightarrow> (string \<rightharpoonup> summary) \<Rightarrow> int \<Rightarrow> string list \<Rightarrow>
   bool \<times> trace list \<Rightarrow> error + bool \<times> trace list" where
  "comparison_loop current_data previous_data year [] st = Inr st"
| "comparison_loop current_data previous_data year (market # rest) (has_data, traces) =
     (let curr' = get_default (current_data market) empty_summary;
          prev' = get_default (previous_data market) empty_summary
      in if py_gt_zero (get_default (total_volume_gwh curr') (PInt 0))
         then (case market_bars curr' prev' year market traces of
                 Inl e \<Rightarrow> Inl e
               | Inr traces \<Rightarrow> comparison_loop current_data previous_data year rest (True, traces))
         else comparison_loop current_data previous_data year rest (has_data, traces))"

text \<open>The figure of this function has no subtitle, which is the empty string here.\<close>

definition generate_comparison_chart ::
  "(string \<rightharpoonup> summary) \<Rightarrow> (string \<rightharpoonup> summary) \<Rightarrow> int \<Rightarrow> error + figure option" where
  "generate_comparison_chart current_data previous_data year =
     bindE (comparison_loop current_data previous_data year markets (False, [])) (\<lambda>st.
       case st of (has_data, traces) \<Rightarrow>
         if \<not> has_data then Inr None
         else Inr (Some \<lparr>fig_title = ''Year-over-Year Performance'', fig_subtitle = [],
                         fig_traces = traces\<rparr>))"

subsection \<open>The sort key as the specification words it\<close>

text \<open>
  The specification reads the interval index as \<^verbatim>\<open>slot_index\<close> when \<^verbatim>\<open>isQuarterly\<close>
  holds and as \<^verbatim>\<open>block_index\<close> otherwise, with 0 for an absent field. The two
  definitions below follow those words, to be compared with \<open>interval_index\<close> and
  \<open>sorted_rows\<close> above, which follow the code.
\<close>

definition spec_interval_index :: "bool \<Rightarrow> row \<Rightarrow> int" where
  "spec_interval_index is_quarterly r =
     (if is_quarterly then get_default (slot_index r) 0 else get_default (block_index r) 0)"

definition spec_sorted_rows :: "bool \<Rightarrow> row list \<Rightarrow> error + row list" where
  "spec_sorted_rows is_quarterly rows =
     bindE (mapE (\<lambda>r. bindE (getitem ''delivery_date'' (delivery_date r))
                         (\<lambda>d. Inr (d, spec_interval_index is_quarterly r))) rows)
       (\<lambda>keys. Inr (map snd (sort_key fst (zip keys rows))))"

subsection \<open>Example rows\<close>

text \<open>A row with every numeric field present and integral, for the concrete runs below.\<close>

definition full_row ::
  "string \<Rightarrow> int option \<Rightarrow> int option \<Rightarrow> int \<Rightarrow> int \<Rightarrow> int \<Rightarrow> int \<Rightarrow> row" where
  "full_row d slot block p m buy sell =
     \<lparr>delivery_date = Some d, slot_index = slot, block_index = block,
      price_avg = Some (PInt p), mcv_mw = Some (PInt m),
      purchase_bid_mw = Some (PInt buy), sell_bid_mw = Some (PInt sell)\<rparr>"

section \<open>Auxiliary facts\<close>

subsection \<open>Computations that may raise\<close>

lemma bindE_Inr_iff: "bindE m f = Inr b \<longleftrightarrow> (\<exists>a. m = Inr a \<and> f a = Inr b)"
  by (cases m) (simp_all add: bindE_def)

lemma mapE_Inr_iff: "mapE f xs = Inr ys \<longleftrightarrow> map f xs = map Inr ys"
proof (induction xs arbitrary: ys)
  case Nil
  show ?case by auto
next
  case (Cons a xs)
  show ?case
  proof (cases "f a")
    case (Inl e)
    then show ?thesis by (cases ys) auto
  next
    case (Inr b)
    show ?thesis
    proof (cases "mapE f xs")
      case (Inl e)
      with Cons[of "tl ys"] Inr show ?thesis by (cases ys) auto
    next
      case r: (Inr bs)
      with Cons Inr show ?thesis by (cases ys) auto
    qed
  qed
qed

lemma mapE_length: "mapE f xs = Inr ys \<Longrightarrow> length ys = length xs"
  by (metis mapE_Inr_iff length_map)

lemma mapE_nth: "mapE f xs = Inr ys \<Longrightarrow> i < length xs \<Longrightarrow> f (xs ! i) = Inr (ys ! i)"
  by (metis mapE_Inr_iff length_map nth_map)

lemma mapE_total:
  assumes "\<And>a. a \<in> set xs \<Longrightarrow> \<exists>b. f a = Inr b"
  shows "\<exists>ys. mapE f xs = Inr ys"
  using assms
proof (induction xs)
  case Nil
  show ?case by simp
next
  case (Cons a xs)
  then obtain b where b: "f a = Inr b" by auto
  from Cons obtain bs where "mapE f xs = Inr bs" by auto
  with b show ?case by simp
qed

lemma mapE_getitem: "mapE (\<lambda>r. getitem k (f r)) rows = Inr vs \<longleftrightarrow> map f rows = map Some vs"
proof -
  have "map (\<lambda>r. getitem k (f r)) rows = map Inr vs \<longleftrightarrow> map f rows = map Some vs"
  proof (induction rows arbitrary: vs)
    case Nil
    show ?case by simp
  next
    case (Cons r rows)
    then show ?case
      by (cases vs; cases "f r") (auto simp: getitem_def)
  qed
  then show ?thesis by (simp only: mapE_Inr_iff)
qed

lemma mapE_getitem_then:
  "mapE (\<lambda>r. bindE (getitem k (f r)) (\<lambda>v. Inr (g v))) rows = Inr ys
     \<longleftrightarrow> (\<exists>vs. map f rows = map Some vs \<and> ys = map g vs)"
proof (induction rows arbitrary: ys)
  case Nil
  show ?case by auto
next
  case (Cons r rows)
  show ?case
  proof (cases "f r")
    case None
    then show ?thesis by (auto simp: getitem_def bindE_def)
  next
    case (Some v)
    show ?thesis
    proof
      assume "mapE (\<lambda>r. bindE (getitem k (f r)) (\<lambda>v. Inr (g v))) (r # rows) = Inr ys"
      with Some obtain ys' where ys': "mapE (\<lambda>r. bindE (getitem k (f r)) (\<lambda>v. Inr (g v))) rows = Inr ys'"
        and ys: "ys = g v # ys'"
        by (auto simp: getitem_def bindE_def split: sum.splits)
      from ys' Cons.IH obtain vs where "map f rows = map Some vs" "ys' = map g vs" by blast
      with Some ys have "map f (r # rows) = map Some (v # vs) \<and> ys = map g (v # vs)" by simp
      then show "\<exists>vs. map f (r # rows) = map Some vs \<and> ys = map g vs" by blast
    next
      assume "\<exists>vs. map f (r # rows) = map Some vs \<and> ys = map g vs"
      then obtain vs where vs: "map f (r # rows) = map Some vs" "ys = map g vs" by blast
      with Some obtain vs' where v': "vs = v # vs'" "map f rows = map Some vs'"
        by (cases vs) auto
      with Cons.IH have "mapE (\<lambda>r. bindE (getitem k (f r)) (\<lambda>v. Inr (g v))) rows = Inr (map g vs')"
        by blast
      with Some vs v' show "mapE (\<lambda>r. bindE (getitem k (f r)) (\<lambda>v. Inr (g v))) (r # rows) = Inr ys"
        by (simp add: getitem_def bindE_def)
    qed
  qed
qed

subsection \<open>The sort\<close>

lemma insort_key_map: "insort_key f (g a) (map g xs) = map g (insort_key (\<lambda>r. f (g r)) a xs)"
  by (induction xs) simp_all

lemma sort_key_map: "sort_key f (map g xs) = map g (sort_key (\<lambda>r. f (g r)) xs)"
  by (induction xs) (simp_all add: insort_key_map)

lemma zip_keys:
  "map f xs = map Inr ks \<Longrightarrow> zip ks xs = map (\<lambda>r. (projr (f r), r)) xs"
proof (induction xs arbitrary: ks)
  case Nil
  then show ?case by simp
next
  case (Cons a xs)
  then show ?case by (cases ks) auto
qed

lemma sort_key_of_iff:
  "sort_key_of r = Inr (d, i) \<longleftrightarrow>
     delivery_date r = Some d \<and>
     i = (case block_index r of Some b \<Rightarrow> b
          | None \<Rightarrow> (case slot_index r of Some s \<Rightarrow> s | None \<Rightarrow> 0))"
  by (auto simp: sort_key_of_def bindE_def getitem_def interval_index_def get_default_def
      split: option.splits)

text \<open>When no key raises, the result is the stable sort of the rows by their keys.\<close>

lemma sorted_rows_Inr:
  assumes "sorted_rows rows = Inr rows'"
  shows "rows' = sort_key (\<lambda>r. projr (sort_key_of r)) rows"
    and "\<And>r. r \<in> set rows \<Longrightarrow> sort_key_of r = Inr (projr (sort_key_of r))"
proof -
  from assms obtain ks where ks: "map sort_key_of rows = map Inr ks"
    and r: "rows' = map snd (sort_key fst (zip ks rows))"
    by (auto simp: sorted_rows_def bindE_Inr_iff mapE_Inr_iff)
  have z: "zip ks rows = map (\<lambda>r. (projr (sort_key_of r), r)) rows"
    by (rule zip_keys [OF ks])
  show "rows' = sort_key (\<lambda>r. projr (sort_key_of r)) rows"
    unfolding r z by (simp add: sort_key_map o_def)
  show "sort_key_of r = Inr (projr (sort_key_of r))" if "r \<in> set rows" for r
  proof -
    from that obtain i where i: "i < length rows" "rows ! i = r"
      by (auto simp: in_set_conv_nth)
    have "length ks = length rows"
      using arg_cong [OF ks, of length] by simp
    with i have "map sort_key_of rows ! i = map Inr ks ! i \<and> i < length ks"
      using ks by simp
    with i have "sort_key_of r = Inr (ks ! i)" by simp
    then show ?thesis by simp
  qed
qed

lemma sorted_rows_total:
  assumes "\<And>r. r \<in> set rows \<Longrightarrow> delivery_date r \<noteq> None"
  shows "sorted_rows rows = Inr (sort_key (\<lambda>r. projr (sort_key_of r)) rows)"
proof -
  have "\<exists>k. sort_key_of r = Inr k" if "r \<in> set rows" for r
    using assms [OF that] by (auto simp: sort_key_of_def bindE_def getitem_def)
  then obtain ks where "mapE sort_key_of rows = Inr ks"
    using mapE_total [of rows sort_key_of] by blast
  then obtain rows' where r: "sorted_rows rows = Inr rows'"
    by (simp add: sorted_rows_def bindE_def)
  with sorted_rows_Inr(1) [OF r] show ?thesis by simp
qed

lemma sorted_rows_length: "sorted_rows rows = Inr rows' \<Longrightarrow> length rows' = length rows"
  using sorted_rows_Inr(1) [of rows rows'] by simp

lemma sorted_rows_mset: "sorted_rows rows = Inr rows' \<Longrightarrow> mset rows' = mset rows"
  using sorted_rows_Inr(1) [of rows rows'] by simp

lemma sorted_rows_keys:
  assumes "sorted_rows rows = Inr rows'"
  shows "mapE sort_key_of rows' = Inr (map (\<lambda>r. projr (sort_key_of r)) rows')"
    and "sorted (map (\<lambda>r. projr (sort_key_of r)) rows')"
proof -
  have s: "set rows' = set rows"
    using sorted_rows_Inr(1) [OF assms] by simp
  have "map sort_key_of rows' = map Inr (map (\<lambda>r. projr (sort_key_of r)) rows')"
    using sorted_rows_Inr(2) [OF assms] s by simp
  then show "mapE sort_key_of rows' = Inr (map (\<lambda>r. projr (sort_key_of r)) rows')"
    by (simp only: mapE_Inr_iff)
  show "sorted (map (\<lambda>r. projr (sort_key_of r)) rows')"
    unfolding sorted_rows_Inr(1) [OF assms] by (rule sorted_sort_key)
qed

lemma sorted_rows_stable:
  assumes "sorted_rows rows = Inr rows'"
  shows "filter (\<lambda>r. sort_key_of r = Inr k) rows' = filter (\<lambda>r. sort_key_of r = Inr k) rows"
proof -
  have s: "set rows' = set rows"
    using sorted_rows_Inr(1) [OF assms] by simp
  have e: "sort_key_of r = Inr k \<longleftrightarrow> projr (sort_key_of r) = k" if "r \<in> set rows" for r
    using sorted_rows_Inr(2) [OF assms that] by (metis sum.sel(2))
  have "filter (\<lambda>r. sort_key_of r = Inr k) rows' = filter (\<lambda>r. projr (sort_key_of r) = k) rows'"
    using e s by (intro filter_cong) auto
  also have "\<dots> = filter (\<lambda>r. projr (sort_key_of r) = k) rows"
    unfolding sorted_rows_Inr(1) [OF assms] by (rule sort_key_stable)
  also have "\<dots> = filter (\<lambda>r. sort_key_of r = Inr k) rows"
    using e by (intro filter_cong) auto
  finally show ?thesis .
qed



subsection \<open>The builders\<close>

lemma labels_of_length: "labels_of q rows = Inr xs \<Longrightarrow> length xs = length rows"
  by (auto simp: labels_of_def dest: mapE_length split: if_splits)

lemma volumes_of_iff:
  "volumes_of rnd q rows = Inr vs \<longleftrightarrow>
     (\<exists>ms. map mcv_mw rows = map Some ms \<and> vs = map (volume_mwh rnd q) ms)"
  unfolding volumes_of_def by (rule mapE_getitem_then)

lemma prices_of_iff:
  "prices_of rnd rows = Inr ps \<longleftrightarrow>
     (\<exists>pa. map price_avg rows = map Some pa \<and> ps = map (\<lambda>p. py_truediv rnd p 1000) pa)"
  using mapE_getitem_then [of "''price_avg''" price_avg "\<lambda>p. py_truediv rnd p 1000" rows ps]
  by (simp add: prices_of_def)

lemma data_prep_Inr:
  "data_prep rnd rows q = Inr s \<longleftrightarrow>
     (\<exists>rows'. sorted_rows rows = Inr rows' \<and>
        labels_of q rows' = Inr (x_vals s) \<and>
        volumes_of rnd q rows' = Inr (volumes s) \<and>
        prices_of rnd rows' = Inr (prices s) \<and>
        map purchase_bid_mw rows' = map Some (buy_bids s) \<and>
        map sell_bid_mw rows' = map Some (sell_bids s))"
  by (cases s) (auto simp: data_prep_def bindE_Inr_iff mapE_getitem)

lemma generate_market_chart_Some:
  "generate_market_chart rnd market_name time_label rows q = Inr (Some fig) \<longleftrightarrow>
     rows \<noteq> [] \<and>
     (\<exists>s. data_prep rnd rows q = Inr s \<and>
        fig = \<lparr>fig_title = market_name @ '' Price & Volume'', fig_subtitle = time_label,
               fig_traces = market_traces s\<rparr>)"
  by (auto simp: generate_market_chart_def bindE_Inr_iff)

lemma market_trace_Inr:
  "market_trace rnd q market_name rows = Inr t \<longleftrightarrow>
     (\<exists>rows' xs ps. sorted_rows rows = Inr rows' \<and> labels_of q rows' = Inr xs \<and>
        prices_of rnd rows' = Inr ps \<and>
        t = \<lparr>trace_kind = Scatter, trace_name = market_name, trace_x = xs, trace_y = ps,
             trace_place = Plain, trace_opacity = None\<rparr>)"
  by (auto simp: market_trace_def bindE_Inr_iff)

lemma market_trace_fields:
  assumes "market_trace rnd q market_name rows = Inr t"
  shows "\<exists>rows'. sorted_rows rows = Inr rows' \<and> labels_of q rows' = Inr (trace_x t) \<and>
           prices_of rnd rows' = Inr (trace_y t) \<and> trace_name t = market_name"
  using assms by (auto simp: market_trace_Inr)

text \<open>The loop adds one trace for each market with rows, in the order of the mapping.\<close>

lemma multi_loop_Inr:
  "multi_loop rnd q market_data traces = Inr ts \<Longrightarrow>
     \<exists>ts'. ts = traces @ ts' \<and>
       list_all2 (\<lambda>mr t. market_trace rnd q (fst mr) (snd mr) = Inr t)
         (filter (\<lambda>mr. snd mr \<noteq> []) market_data) ts'"
proof (induction market_data arbitrary: traces)
  case Nil
  then show ?case by simp
next
  case (Cons mr rest)
  obtain m rows where mr: "mr = (m, rows)" by (cases mr)
  show ?case
  proof (cases "rows = []")
    case True
    with Cons mr show ?thesis by simp
  next
    case False
    with Cons.prems mr obtain t where t: "market_trace rnd q m rows = Inr t"
      and l: "multi_loop rnd q rest (traces @ [t]) = Inr ts"
      by (auto split: sum.splits)
    from Cons.IH [OF l] obtain ts' where "ts = (traces @ [t]) @ ts'"
      and "list_all2 (\<lambda>mr t. market_trace rnd q (fst mr) (snd mr) = Inr t)
         (filter (\<lambda>mr. snd mr \<noteq> []) rest) ts'"
      by blast
    with t False mr have "ts = traces @ (t # ts') \<and>
       list_all2 (\<lambda>mr t. market_trace rnd q (fst mr) (snd mr) = Inr t)
         (filter (\<lambda>mr. snd mr \<noteq> []) (mr # rest)) (t # ts')"
      by simp
    then show ?thesis by blast
  qed
qed

lemma generate_multi_market_chart_Some:
  assumes "generate_multi_market_chart rnd market_data time_label q = Inr (Some fig)"
  shows "market_data \<noteq> []"
    and "list_all2 (\<lambda>mr t. market_trace rnd q (fst mr) (snd mr) = Inr t)
           (filter (\<lambda>mr. snd mr \<noteq> []) market_data) (fig_traces fig)"
proof -
  from assms show ne: "market_data \<noteq> []"
    by (auto simp: generate_multi_market_chart_def split: if_splits)
  with assms obtain ts where "multi_loop rnd q market_data [] = Inr ts" "fig_traces fig = ts"
    by (auto simp: generate_multi_market_chart_def bindE_Inr_iff)
  with multi_loop_Inr [of rnd q market_data "[]" ts]
  show "list_all2 (\<lambda>mr t. market_trace rnd q (fst mr) (snd mr) = Inr t)
           (filter (\<lambda>mr. snd mr \<noteq> []) market_data) (fig_traces fig)"
    by simp
qed

lemma multi_trace_source:
  assumes "generate_multi_market_chart rnd market_data time_label q = Inr (Some fig)"
    and "t \<in> set (fig_traces fig)"
  shows "\<exists>rows. (trace_name t, rows) \<in> set market_data \<and> rows \<noteq> [] \<and>
           market_trace rnd q (trace_name t) rows = Inr t"
proof -
  from assms(2) obtain i where i: "i < length (fig_traces fig)" "fig_traces fig ! i = t"
    by (auto simp: in_set_conv_nth)
  let ?ms = "filter (\<lambda>mr. snd mr \<noteq> []) market_data"
  from generate_multi_market_chart_Some(2) [OF assms(1)] i
  have l: "i < length ?ms" and m: "market_trace rnd q (fst (?ms ! i)) (snd (?ms ! i)) = Inr t"
    by (auto simp: list_all2_conv_all_nth)
  from l have "?ms ! i \<in> set ?ms" by (rule nth_mem)
  then have mem: "?ms ! i \<in> set market_data" and ne: "snd (?ms ! i) \<noteq> []" by auto
  from m have "trace_name t = fst (?ms ! i)" by (auto simp: market_trace_Inr)
  with mem ne m show ?thesis by (metis prod.collapse)
qed

lemma mapE_getitem_total:
  assumes "\<And>r. r \<in> set rows \<Longrightarrow> f r \<noteq> None"
  shows "\<exists>ys. mapE (\<lambda>r. bindE (getitem k (f r)) (\<lambda>v. Inr (g v))) rows = Inr ys"
    and "\<exists>vs. mapE (\<lambda>r. getitem k (f r)) rows = Inr vs"
proof -
  have "\<exists>v. f r = Some v" if "r \<in> set rows" for r
    using assms [OF that] by auto
  then have "map f rows = map (\<lambda>r. Some (the (f r))) rows"
    by (intro map_cong) auto
  then have "map f rows = map Some (map (\<lambda>r. the (f r)) rows)"
    by (simp add: o_def)
  then obtain vs where vs: "map f rows = map Some vs" ..
  then show "\<exists>vs. mapE (\<lambda>r. getitem k (f r)) rows = Inr vs"
    unfolding mapE_getitem by blast
  from vs show "\<exists>ys. mapE (\<lambda>r. bindE (getitem k (f r)) (\<lambda>v. Inr (g v))) rows = Inr ys"
    unfolding mapE_getitem_then by blast
qed

text \<open>The data preparation succeeds on rows that carry every key the code subscripts.\<close>

lemma data_prep_total:
  assumes "\<And>r. r \<in> set rows \<Longrightarrow> delivery_date r \<noteq> None"
    and "\<And>r. r \<in> set rows \<Longrightarrow> q \<Longrightarrow> slot_index r \<noteq> None"
    and "\<And>r. r \<in> set rows \<Longrightarrow> mcv_mw r \<noteq> None"
    and "\<And>r. r \<in> set rows \<Longrightarrow> price_avg r \<noteq> None"
    and "\<And>r. r \<in> set rows \<Longrightarrow> purchase_bid_mw r \<noteq> None"
    and "\<And>r. r \<in> set rows \<Longrightarrow> sell_bid_mw r \<noteq> None"
  shows "\<exists>s. data_prep rnd rows q = Inr s"
proof -
  let ?rows' = "sort_key (\<lambda>r. projr (sort_key_of r)) rows"
  have s: "sorted_rows rows = Inr ?rows'"
    by (rule sorted_rows_total) (rule assms(1))
  have m: "set ?rows' = set rows" by simp
  have lh: "\<exists>l. label_hourly r = Inr l" if "r \<in> set ?rows'" for r
  proof -
    from that m assms(1) [of r] obtain d where "delivery_date r = Some d" by auto
    then show ?thesis by (simp add: label_hourly_def bindE_def getitem_def)
  qed
  have lq: "\<exists>l. label_quarterly r = Inr l" if "r \<in> set ?rows'" and q for r
  proof -
    from that m assms(1) [of r] obtain d where "delivery_date r = Some d" by auto
    moreover from that m assms(2) [of r] obtain i where "slot_index r = Some i" by auto
    ultimately show ?thesis by (simp add: label_quarterly_def bindE_def getitem_def)
  qed
  have "\<exists>xs. labels_of q ?rows' = Inr xs"
  proof (cases q)
    case True
    have "\<exists>xs. mapE label_quarterly ?rows' = Inr xs"
      by (rule mapE_total) (rule lq [OF _ True])
    with True show ?thesis by (simp add: labels_of_def)
  next
    case False
    have "\<exists>xs. mapE label_hourly ?rows' = Inr xs"
      by (rule mapE_total) (rule lh)
    with False show ?thesis by (simp add: labels_of_def)
  qed
  then obtain xs where xs: "labels_of q ?rows' = Inr xs" ..
  have "\<exists>vs. volumes_of rnd q ?rows' = Inr vs"
    unfolding volumes_of_def by (rule mapE_getitem_total(1)) (use assms(3) m in auto)
  then obtain vs where vs: "volumes_of rnd q ?rows' = Inr vs" ..
  have "\<exists>ps. prices_of rnd ?rows' = Inr ps"
    unfolding prices_of_def by (rule mapE_getitem_total(1)) (use assms(4) m in auto)
  then obtain ps where ps: "prices_of rnd ?rows' = Inr ps" ..
  have "\<exists>bs. mapE (\<lambda>r. getitem ''purchase_bid_mw'' (purchase_bid_mw r)) ?rows' = Inr bs"
    by (rule mapE_getitem_total(2)) (use assms(5) m in auto)
  then obtain bs where bs: "mapE (\<lambda>r. getitem ''purchase_bid_mw'' (purchase_bid_mw r)) ?rows' = Inr bs" ..
  have "\<exists>ss. mapE (\<lambda>r. getitem ''sell_bid_mw'' (sell_bid_mw r)) ?rows' = Inr ss"
    by (rule mapE_getitem_total(2)) (use assms(6) m in auto)
  then obtain ss where ss: "mapE (\<lambda>r. getitem ''sell_bid_mw'' (sell_bid_mw r)) ?rows' = Inr ss" ..
  from s xs vs ps bs ss show ?thesis
    by (simp add: data_prep_def bindE_def)
qed

text \<open>
  Whenever \<^verbatim>\<open>generate_market_chart\<close> returns a figure, its four traces hold the five
  sequences, each of the length of the input and aligned index for index with the sorted
  rows, the bids unchanged; and it returns a figure for every non-empty collection whose
  rows carry the keys the code subscripts.
\<close>

lemma market_chart_sequences_aligned:
  "(generate_market_chart rnd market_name time_label rows is_quarterly = Inr (Some fig) \<longrightarrow>
      rows \<noteq> [] \<and>
      (\<exists>rows' (s::series). sorted_rows rows = Inr rows' \<and>
         fig_traces fig =
           [\<lparr>trace_kind = Bar, trace_name = ''Volume'', trace_x = x_vals s,
             trace_y = volumes s, trace_place = SecondaryY False, trace_opacity = None\<rparr>,
            \<lparr>trace_kind = Scatter, trace_name = ''Buy Bids'', trace_x = x_vals s,
             trace_y = buy_bids s, trace_place = SecondaryY True, trace_opacity = None\<rparr>,
            \<lparr>trace_kind = Scatter, trace_name = ''Sell Bids'', trace_x = x_vals s,
             trace_y = sell_bids s, trace_place = SecondaryY True, trace_opacity = None\<rparr>,
            \<lparr>trace_kind = Scatter, trace_name = ''Price'', trace_x = x_vals s,
             trace_y = prices s, trace_place = SecondaryY True, trace_opacity = None\<rparr>] \<and>
         length rows' = length rows \<and>
         length (x_vals s) = length rows \<and> length (volumes s) = length rows \<and>
         length (prices s) = length rows \<and> length (buy_bids s) = length rows \<and>
         length (sell_bids s) = length rows \<and>
         (\<forall>i < length rows.
            (if is_quarterly then label_quarterly (rows' ! i) else label_hourly (rows' ! i)) =
              Inr (x_vals s ! i) \<and>
            (\<exists>m. mcv_mw (rows' ! i) = Some m \<and> volumes s ! i = volume_mwh rnd is_quarterly m) \<and>
            (\<exists>p. price_avg (rows' ! i) = Some p \<and> prices s ! i = py_truediv rnd p 1000) \<and>
            purchase_bid_mw (rows' ! i) = Some (buy_bids s ! i) \<and>
            sell_bid_mw (rows' ! i) = Some (sell_bids s ! i)))) \<and>
   (rows \<noteq> [] \<and>
    (\<forall>r \<in> set rows. delivery_date r \<noteq> None \<and> (is_quarterly \<longrightarrow> slot_index r \<noteq> None) \<and>
       mcv_mw r \<noteq> None \<and> price_avg r \<noteq> None \<and>
       purchase_bid_mw r \<noteq> None \<and> sell_bid_mw r \<noteq> None) \<longrightarrow>
    (\<exists>fig. generate_market_chart rnd market_name time_label rows is_quarterly = Inr (Some fig)))"
proof (intro conjI impI)
  assume g: "generate_market_chart rnd market_name time_label rows is_quarterly = Inr (Some fig)"
  then show "rows \<noteq> []" by (simp add: generate_market_chart_Some)
  from g obtain s rows' where s: "sorted_rows rows = Inr rows'"
    and f0: "fig_traces fig = market_traces s"
    and x: "labels_of is_quarterly rows' = Inr (x_vals s)"
    and v: "volumes_of rnd is_quarterly rows' = Inr (volumes s)"
    and p: "prices_of rnd rows' = Inr (prices s)"
    and b: "map purchase_bid_mw rows' = map Some (buy_bids s)"
    and e: "map sell_bid_mw rows' = map Some (sell_bids s)"
    by (auto simp: generate_market_chart_Some data_prep_Inr)
  have f: "fig_traces fig =
           [\<lparr>trace_kind = Bar, trace_name = ''Volume'', trace_x = x_vals s,
             trace_y = volumes s, trace_place = SecondaryY False, trace_opacity = None\<rparr>,
            \<lparr>trace_kind = Scatter, trace_name = ''Buy Bids'', trace_x = x_vals s,
             trace_y = buy_bids s, trace_place = SecondaryY True, trace_opacity = None\<rparr>,
            \<lparr>trace_kind = Scatter, trace_name = ''Sell Bids'', trace_x = x_vals s,
             trace_y = sell_bids s, trace_place = SecondaryY True, trace_opacity = None\<rparr>,
            \<lparr>trace_kind = Scatter, trace_name = ''Price'', trace_x = x_vals s,
             trace_y = prices s, trace_place = SecondaryY True, trace_opacity = None\<rparr>]"
    unfolding f0 by (simp add: market_traces_def)
  have n: "length rows' = length rows" by (rule sorted_rows_length [OF s])
  from v obtain ms where ms: "map mcv_mw rows' = map Some ms"
    and vs: "volumes s = map (volume_mwh rnd is_quarterly) ms"
    by (auto simp: volumes_of_iff)
  from p obtain pa where pa: "map price_avg rows' = map Some pa"
    and ps: "prices s = map (\<lambda>p. py_truediv rnd p 1000) pa"
    by (auto simp: prices_of_iff)
  have lx: "length (x_vals s) = length rows" using labels_of_length [OF x] n by simp
  have lm: "length ms = length rows" using arg_cong [OF ms, of length] n by simp
  have lp: "length pa = length rows" using arg_cong [OF pa, of length] n by simp
  have lb: "length (buy_bids s) = length rows" using arg_cong [OF b, of length] n by simp
  have le: "length (sell_bids s) = length rows" using arg_cong [OF e, of length] n by simp
  have al: "(if is_quarterly then label_quarterly (rows' ! i) else label_hourly (rows' ! i)) =
              Inr (x_vals s ! i) \<and>
            (\<exists>m. mcv_mw (rows' ! i) = Some m \<and> volumes s ! i = volume_mwh rnd is_quarterly m) \<and>
            (\<exists>p. price_avg (rows' ! i) = Some p \<and> prices s ! i = py_truediv rnd p 1000) \<and>
            purchase_bid_mw (rows' ! i) = Some (buy_bids s ! i) \<and>
            sell_bid_mw (rows' ! i) = Some (sell_bids s ! i)" if i: "i < length rows" for i
  proof (intro conjI)
    from i n have i': "i < length rows'" by simp
    from x i' show "(if is_quarterly then label_quarterly (rows' ! i) else label_hourly (rows' ! i)) =
              Inr (x_vals s ! i)"
      by (auto simp: labels_of_def dest: mapE_nth split: if_splits)
    from i' have "mcv_mw (rows' ! i) = map mcv_mw rows' ! i" by simp
    also have "\<dots> = Some (ms ! i)" unfolding ms using i lm by simp
    finally show "\<exists>m. mcv_mw (rows' ! i) = Some m \<and> volumes s ! i = volume_mwh rnd is_quarterly m"
      using vs i lm by simp
    from i' have "price_avg (rows' ! i) = map price_avg rows' ! i" by simp
    also have "\<dots> = Some (pa ! i)" unfolding pa using i lp by simp
    finally show "\<exists>p. price_avg (rows' ! i) = Some p \<and> prices s ! i = py_truediv rnd p 1000"
      using ps i lp by simp
    from i' have "purchase_bid_mw (rows' ! i) = map purchase_bid_mw rows' ! i" by simp
    also have "\<dots> = Some (buy_bids s ! i)" unfolding b using i lb by simp
    finally show "purchase_bid_mw (rows' ! i) = Some (buy_bids s ! i)" .
    from i' have "sell_bid_mw (rows' ! i) = map sell_bid_mw rows' ! i" by simp
    also have "\<dots> = Some (sell_bids s ! i)" unfolding e using i le by simp
    finally show "sell_bid_mw (rows' ! i) = Some (sell_bids s ! i)" .
  qed
  from s f n lx lm lp lb le vs ps al
  show "\<exists>rows' (s::series). sorted_rows rows = Inr rows' \<and>
         fig_traces fig =
           [\<lparr>trace_kind = Bar, trace_name = ''Volume'', trace_x = x_vals s,
             trace_y = volumes s, trace_place = SecondaryY False, trace_opacity = None\<rparr>,
            \<lparr>trace_kind = Scatter, trace_name = ''Buy Bids'', trace_x = x_vals s,
             trace_y = buy_bids s, trace_place = SecondaryY True, trace_opacity = None\<rparr>,
            \<lparr>trace_kind = Scatter, trace_name = ''Sell Bids'', trace_x = x_vals s,
             trace_y = sell_bids s, trace_place = SecondaryY True, trace_opacity = None\<rparr>,
            \<lparr>trace_kind = Scatter, trace_name = ''Price'', trace_x = x_vals s,
             trace_y = prices s, trace_place = SecondaryY True, trace_opacity = None\<rparr>] \<and>
         length rows' = length rows \<and>
         length (x_vals s) = length rows \<and> length (volumes s) = length rows \<and>
         length (prices s) = length rows \<and> length (buy_bids s) = length rows \<and>
         length (sell_bids s) = length rows \<and>
         (\<forall>i < length rows.
            (if is_quarterly then label_quarterly (rows' ! i) else label_hourly (rows' ! i)) =
              Inr (x_vals s ! i) \<and>
            (\<exists>m. mcv_mw (rows' ! i) = Some m \<and> volumes s ! i = volume_mwh rnd is_quarterly m) \<and>
            (\<exists>p. price_avg (rows' ! i) = Some p \<and> prices s ! i = py_truediv rnd p 1000) \<and>
            purchase_bid_mw (rows' ! i) = Some (buy_bids s ! i) \<and>
            sell_bid_mw (rows' ! i) = Some (sell_bids s ! i))"
    by (intro exI [of _ rows'] exI [of _ s]) simp
next
  assume a: "rows \<noteq> [] \<and>
    (\<forall>r \<in> set rows. delivery_date r \<noteq> None \<and> (is_quarterly \<longrightarrow> slot_index r \<noteq> None) \<and>
       mcv_mw r \<noteq> None \<and> price_avg r \<noteq> None \<and>
       purchase_bid_mw r \<noteq> None \<and> sell_bid_mw r \<noteq> None)"
  then have "\<exists>s. data_prep rnd rows is_quarterly = Inr s"
    by (intro data_prep_total) auto
  with a show "\<exists>fig. generate_market_chart rnd market_name time_label rows is_quarterly = Inr (Some fig)"
    by (auto simp: generate_market_chart_Some)
qed

subsection \<open>The year-over-year loop\<close>

text \<open>
  The first replacement field of the previous-year volume template is \<^verbatim>\<open>{x}\<close>, and
  \<^verbatim>\<open>x\<close> is not among the keywords of the call: formatting raises \<^verbatim>\<open>KeyError('x')\<close> for
  every year.
\<close>

lemma prev_volume_template_raises:
  "py_format prev_volume_template [(''year_minus'', y)] = Inl (KeyError ''x'')"
  by (simp add: py_format_def prev_volume_template_def field_value_def bindE_def)

lemma market_bars_raises: "market_bars c p year m traces = Inl (KeyError ''x'')"
  by (simp add: market_bars_def Let_def prev_volume_template_raises bindE_def)

text \<open>So the loop raises at the first included market, and returns its state unchanged
  when no market is included.\<close>

lemma comparison_loop_eq:
  "comparison_loop current_data previous_data year ms (has_data, traces) =
     (if \<exists>m \<in> set ms. included current_data m then Inl (KeyError ''x'')
      else Inr (has_data, traces))"
proof (induction ms)
  case Nil
  show ?case by simp
next
  case (Cons m ms)
  show ?case
  proof (cases "included current_data m")
    case True
    then show ?thesis by (simp add: included_def Let_def market_bars_raises)
  next
    case False
    then have "comparison_loop current_data previous_data year (m # ms) (has_data, traces) =
      comparison_loop current_data previous_data year ms (has_data, traces)"
      by (simp add: included_def Let_def)
    with False show ?thesis by (simp add: Cons.IH)
  qed
qed

lemma generate_comparison_chart_eq:
  "generate_comparison_chart current_data previous_data year =
     (if \<exists>m \<in> set markets. included current_data m then Inl (KeyError ''x'') else Inr None)"
  by (simp add: generate_comparison_chart_def comparison_loop_eq bindE_def)

subsection \<open>Unfolding rules for concrete runs\<close>

lemmas run_defs =
  generate_market_chart_def data_prep_def sorted_rows_def sort_key_of_def bindE_def getitem_def
  full_row_def interval_index_def get_default_def labels_of_def label_quarterly_def
  label_hourly_def str_int_def str_nat.simps digit_char_def volumes_of_def volume_mwh_def
  py_mul_def py_truediv_def to_float_def prices_of_def market_traces_def
  generate_multi_market_chart_def market_trace_def

lemmas yoy_defs =
  generate_comparison_chart_def markets_def py_gt_zero_def get_default_def empty_summary_def
  market_bars_def bar_def py_format_def prev_volume_template_def field_value_def bindE_def
  Let_def

section \<open>Claims\<close>

text \<open>
  C1 (as amended). Both builders sort the rows stably by \<open>(delivery_date, k)\<close> ascending,
  where \<open>k\<close> is the row's \<^verbatim>\<open>block_index\<close> when that field is present, else its
  \<^verbatim>\<open>slot_index\<close> when present, else 0, whatever \<^verbatim>\<open>is_quarterly\<close> is: the sequence
  the labels are computed from is a permutation of the input rows, its keys ascend, and
  rows with equal keys keep their input order.
\<close>

theorem builders_sort_by_date_then_block_else_slot:
  "(sort_key_of r = Inr (d, i) \<longleftrightarrow>
      delivery_date r = Some d \<and>
      i = (case block_index r of Some b \<Rightarrow> b
           | None \<Rightarrow> (case slot_index r of Some s \<Rightarrow> s | None \<Rightarrow> 0))) \<and>
   (generate_market_chart rnd market_name time_label rows is_quarterly = Inr (Some fig) \<longrightarrow>
      (\<exists>rows' keys. mset rows' = mset rows \<and>
         mapE sort_key_of rows' = Inr keys \<and> sorted keys \<and>
         (\<forall>k. filter (\<lambda>r. sort_key_of r = Inr k) rows' = filter (\<lambda>r. sort_key_of r = Inr k) rows) \<and>
         (\<forall>t \<in> set (fig_traces fig). labels_of is_quarterly rows' = Inr (trace_x t)))) \<and>
   (generate_multi_market_chart rnd market_data time_label is_quarterly = Inr (Some mfig) \<longrightarrow>
      (\<forall>t \<in> set (fig_traces mfig). \<exists>mrows rows' keys.
         (trace_name t, mrows) \<in> set market_data \<and> mset rows' = mset mrows \<and>
         mapE sort_key_of rows' = Inr keys \<and> sorted keys \<and>
         (\<forall>k. filter (\<lambda>r. sort_key_of r = Inr k) rows' = filter (\<lambda>r. sort_key_of r = Inr k) mrows) \<and>
         labels_of is_quarterly rows' = Inr (trace_x t)))"
proof (intro conjI impI ballI)
  show "sort_key_of r = Inr (d, i) \<longleftrightarrow>
      delivery_date r = Some d \<and>
      i = (case block_index r of Some b \<Rightarrow> b
           | None \<Rightarrow> (case slot_index r of Some s \<Rightarrow> s | None \<Rightarrow> 0))"
    by (rule sort_key_of_iff)
next
  assume "generate_market_chart rnd market_name time_label rows is_quarterly = Inr (Some fig)"
  then obtain s rows' where s: "sorted_rows rows = Inr rows'"
    and l: "labels_of is_quarterly rows' = Inr (x_vals s)"
    and f: "fig_traces fig = market_traces s"
    by (auto simp: generate_market_chart_Some data_prep_Inr)
  have "\<forall>t \<in> set (fig_traces fig). labels_of is_quarterly rows' = Inr (trace_x t)"
    unfolding f using l by (simp add: market_traces_def)
  with sorted_rows_mset [OF s] sorted_rows_keys [OF s] sorted_rows_stable [OF s]
  show "\<exists>rows' keys. mset rows' = mset rows \<and>
         mapE sort_key_of rows' = Inr keys \<and> sorted keys \<and>
         (\<forall>k. filter (\<lambda>r. sort_key_of r = Inr k) rows' = filter (\<lambda>r. sort_key_of r = Inr k) rows) \<and>
         (\<forall>t \<in> set (fig_traces fig). labels_of is_quarterly rows' = Inr (trace_x t))"
    by blast
next
  fix t
  assume g: "generate_multi_market_chart rnd market_data time_label is_quarterly = Inr (Some mfig)"
    and t: "t \<in> set (fig_traces mfig)"
  from multi_trace_source [OF g t] obtain mrows where m: "(trace_name t, mrows) \<in> set market_data"
    and mt: "market_trace rnd is_quarterly (trace_name t) mrows = Inr t"
    by blast
  from market_trace_fields [OF mt] obtain rows' where s: "sorted_rows mrows = Inr rows'"
    and l: "labels_of is_quarterly rows' = Inr (trace_x t)"
    by blast
  from m l sorted_rows_mset [OF s] sorted_rows_keys [OF s] sorted_rows_stable [OF s]
  show "\<exists>mrows rows' keys.
         (trace_name t, mrows) \<in> set market_data \<and> mset rows' = mset mrows \<and>
         mapE sort_key_of rows' = Inr keys \<and> sorted keys \<and>
         (\<forall>k. filter (\<lambda>r. sort_key_of r = Inr k) rows' = filter (\<lambda>r. sort_key_of r = Inr k) mrows) \<and>
         labels_of is_quarterly rows' = Inr (trace_x t)"
    by blast
qed

text \<open>
  A run of the theorem: two hourly rows given in descending date order come out in
  ascending order, in the single-market figure and in the only trace of the
  multi-market figure.
\<close>

theorem builders_sort_by_date_then_block_else_slot_witness:
  "generate_market_chart id ''DAM'' ''Jan''
     [full_row ''2024-01-02'' None (Some 1) 2500 120 200 180,
      full_row ''2024-01-01'' None (Some 2) 2600 100 210 170] False =
   Inr (Some \<lparr>fig_title = ''DAM Price & Volume'', fig_subtitle = ''Jan'',
     fig_traces = market_traces
       \<lparr>x_vals = [''2024-01-01 H-2'', ''2024-01-02 H-1''], volumes = [PFloat 25, PFloat 30],
        prices = [PFloat 2.6, PFloat 2.5], buy_bids = [PInt 210, PInt 200],
        sell_bids = [PInt 170, PInt 180]\<rparr>\<rparr>) \<and>
   generate_multi_market_chart id
     [(''DAM'', [full_row ''2024-01-02'' None (Some 1) 2500 120 200 180,
                 full_row ''2024-01-01'' None (Some 2) 2600 100 210 170])] ''Jan'' False =
   Inr (Some \<lparr>fig_title = ''Market Comparison'', fig_subtitle = ''Jan'',
     fig_traces = [\<lparr>trace_kind = Scatter, trace_name = ''DAM'',
        trace_x = [''2024-01-01 H-2'', ''2024-01-02 H-1''], trace_y = [PFloat 2.6, PFloat 2.5],
        trace_place = Plain, trace_opacity = None\<rparr>]\<rparr>) \<and>
   (\<exists>rows' keys.
      mset rows' = mset [full_row ''2024-01-02'' None (Some 1) 2500 120 200 180,
                         full_row ''2024-01-01'' None (Some 2) 2600 100 210 170] \<and>
      mapE sort_key_of rows' = Inr keys \<and> sorted keys \<and>
      labels_of False rows' = Inr [''2024-01-01 H-2'', ''2024-01-02 H-1''])"
proof -
  let ?rows = "[full_row ''2024-01-02'' None (Some 1) 2500 120 200 180,
                full_row ''2024-01-01'' None (Some 2) 2600 100 210 170]"
  let ?s = "\<lparr>x_vals = [''2024-01-01 H-2'', ''2024-01-02 H-1''], volumes = [PFloat 25, PFloat 30],
        prices = [PFloat 2.6, PFloat 2.5], buy_bids = [PInt 210, PInt 200],
        sell_bids = [PInt 170, PInt 180]\<rparr>"
  let ?fig = "\<lparr>fig_title = ''DAM Price & Volume'', fig_subtitle = ''Jan'',
     fig_traces = market_traces ?s\<rparr>"
  let ?mfig = "\<lparr>fig_title = ''Market Comparison'', fig_subtitle = ''Jan'',
     fig_traces = [\<lparr>trace_kind = Scatter, trace_name = ''DAM'',
        trace_x = [''2024-01-01 H-2'', ''2024-01-02 H-1''], trace_y = [PFloat 2.6, PFloat 2.5],
        trace_place = Plain, trace_opacity = None\<rparr>]\<rparr>"
  have h1: "generate_market_chart id ''DAM'' ''Jan'' ?rows False = Inr (Some ?fig)"
    by (simp add: run_defs)
  have h2: "generate_multi_market_chart id [(''DAM'', ?rows)] ''Jan'' False = Inr (Some ?mfig)"
    by (simp add: run_defs)
  from builders_sort_by_date_then_block_else_slot
    [of _ _ _ id "''DAM''" "''Jan''" ?rows False ?fig "[(''DAM'', ?rows)]" ?mfig] h1
  have "\<exists>rows' keys. mset rows' = mset ?rows \<and>
         mapE sort_key_of rows' = Inr keys \<and> sorted keys \<and>
         (\<forall>k. filter (\<lambda>r. sort_key_of r = Inr k) rows' = filter (\<lambda>r. sort_key_of r = Inr k) ?rows) \<and>
         (\<forall>t \<in> set (fig_traces ?fig). labels_of False rows' = Inr (trace_x t))"
    by blast
  then obtain rows' keys where "mset rows' = mset ?rows" "mapE sort_key_of rows' = Inr keys"
    "sorted keys" "\<forall>t \<in> set (fig_traces ?fig). labels_of False rows' = Inr (trace_x t)"
    by blast
  then have "mset rows' = mset ?rows \<and> mapE sort_key_of rows' = Inr keys \<and> sorted keys \<and>
      labels_of False rows' = Inr [''2024-01-01 H-2'', ''2024-01-02 H-1'']"
    by (simp add: market_traces_def)
  with h1 h2 show ?thesis by blast
qed

text \<open>
  C1 as the specification words it fails. Two quarter-hourly rows of one date and one
  hourly block, slot 2 given before slot 1: the code's key is \<open>(date, block_index)\<close>, the
  rows tie and keep their input order, and the labels come out as S-2, S-1. Sorting by
  \<open>(date, slot_index)\<close>, as the specification words it for \<^verbatim>\<open>isQuarterly\<close>, puts slot 1
  first.
\<close>

theorem sort_key_reads_slot_when_quarterly_counterexample:
  "sorted_rows [full_row ''2024-01-01'' (Some 2) (Some 1) 2600 100 210 170,
                full_row ''2024-01-01'' (Some 1) (Some 1) 2500 120 200 180] \<noteq>
   spec_sorted_rows True [full_row ''2024-01-01'' (Some 2) (Some 1) 2600 100 210 170,
                          full_row ''2024-01-01'' (Some 1) (Some 1) 2500 120 200 180] \<and>
   sorted_rows [full_row ''2024-01-01'' (Some 2) (Some 1) 2600 100 210 170,
                full_row ''2024-01-01'' (Some 1) (Some 1) 2500 120 200 180] =
     Inr [full_row ''2024-01-01'' (Some 2) (Some 1) 2600 100 210 170,
          full_row ''2024-01-01'' (Some 1) (Some 1) 2500 120 200 180] \<and>
   spec_sorted_rows True [full_row ''2024-01-01'' (Some 2) (Some 1) 2600 100 210 170,
                          full_row ''2024-01-01'' (Some 1) (Some 1) 2500 120 200 180] =
     Inr [full_row ''2024-01-01'' (Some 1) (Some 1) 2500 120 200 180,
          full_row ''2024-01-01'' (Some 2) (Some 1) 2600 100 210 170] \<and>
   generate_market_chart id ''RTM'' ''Jan''
     [full_row ''2024-01-01'' (Some 2) (Some 1) 2600 100 210 170,
      full_row ''2024-01-01'' (Some 1) (Some 1) 2500 120 200 180] True =
     Inr (Some \<lparr>fig_title = ''RTM Price & Volume'', fig_subtitle = ''Jan'',
       fig_traces = market_traces
         \<lparr>x_vals = [''2024-01-01 S-2'', ''2024-01-01 S-1''], volumes = [PFloat 25, PFloat 30],
          prices = [PFloat 2.6, PFloat 2.5], buy_bids = [PInt 210, PInt 200],
          sell_bids = [PInt 170, PInt 180]\<rparr>\<rparr>)"
  by (simp add: run_defs spec_sorted_rows_def spec_interval_index_def)


text \<open>
  C2. The claim has a missing \<^verbatim>\<open>slot_index\<close> default to 0 in the quarterly label. The
  code does so in the sort key (\<^verbatim>\<open>x.get('slot_index', 0)\<close>, line 80) and for
  \<^verbatim>\<open>block_index\<close> in the hourly label (\<^verbatim>\<open>r.get('block_index', 0)\<close>, line 85), but the
  quarterly label subscripts \<^verbatim>\<open>r['slot_index']\<close> (line 82). On a row without
  either index the sort succeeds, the hourly label is \<open>H-0\<close>, and the quarterly call
  raises \<^verbatim>\<open>KeyError('slot_index')\<close>.
\<close>

theorem quarterly_label_missing_slot_index_raises:
  "sorted_rows [full_row ''2024-01-01'' None None 2500 120 200 180] =
     Inr [full_row ''2024-01-01'' None None 2500 120 200 180] \<and>
   label_hourly (full_row ''2024-01-01'' None None 2500 120 200 180) = Inr ''2024-01-01 H-0'' \<and>
   label_quarterly (full_row ''2024-01-01'' None None 2500 120 200 180) =
     Inl (KeyError ''slot_index'') \<and>
   generate_market_chart id ''RTM'' ''Jan''
     [full_row ''2024-01-01'' None None 2500 120 200 180] True = Inl (KeyError ''slot_index'')"
  by (simp add: run_defs)


text \<open>
  C3 (as amended). \<^verbatim>\<open>generate_multi_market_chart\<close> adds no trace for a market whose
  row collection is empty: when it returns, the trace names are the keys of the markets
  with rows, in mapping order, no trace has an empty sequence, and a key mapped to the
  empty collection names no trace. The result is \<^verbatim>\<open>None\<close> exactly when the mapping
  itself is empty; a non-empty mapping gives a figure, which has no trace when no market
  has rows.
\<close>

theorem multi_market_omits_empty_markets:
  assumes "generate_multi_market_chart rnd market_data time_label is_quarterly = Inr res"
  shows "(res = None \<longleftrightarrow> market_data = []) \<and>
    (\<forall>fig. res = Some fig \<longrightarrow>
       map trace_name (fig_traces fig) = map fst (filter (\<lambda>mr. snd mr \<noteq> []) market_data) \<and>
       (\<forall>t \<in> set (fig_traces fig). trace_x t \<noteq> [] \<and> trace_y t \<noteq> []) \<and>
       (distinct (map fst market_data) \<longrightarrow>
          (\<forall>m. (m, []) \<in> set market_data \<longrightarrow> m \<notin> set (map trace_name (fig_traces fig)))))"
proof (intro conjI allI impI)
  show "res = None \<longleftrightarrow> market_data = []"
  proof (cases "market_data = []")
    case True
    with assms show ?thesis by (simp add: generate_multi_market_chart_def)
  next
    case False
    with assms have "\<exists>fig. res = Some fig"
      by (auto simp: generate_multi_market_chart_def bindE_Inr_iff)
    with False show ?thesis by auto
  qed
next
  fix fig
  assume "res = Some fig"
  with assms have g: "generate_multi_market_chart rnd market_data time_label is_quarterly = Inr (Some fig)"
    by simp
  let ?ms = "filter (\<lambda>mr. snd mr \<noteq> []) market_data"
  have l: "list_all2 (\<lambda>mr t. market_trace rnd is_quarterly (fst mr) (snd mr) = Inr t) ?ms (fig_traces fig)"
    by (rule generate_multi_market_chart_Some(2) [OF g])
  have len: "length ?ms = length (fig_traces fig)"
    using l by (rule list_all2_lengthD)
  have nm: "trace_name (fig_traces fig ! i) = fst (?ms ! i)" if "i < length ?ms" for i
  proof -
    from l that
    have "market_trace rnd is_quarterly (fst (?ms ! i)) (snd (?ms ! i)) = Inr (fig_traces fig ! i)"
      by (simp add: list_all2_conv_all_nth)
    from market_trace_fields [OF this] show ?thesis by blast
  qed
  show names: "map trace_name (fig_traces fig) = map fst ?ms"
    by (rule nth_equalityI) (simp_all add: len nm)
  show "\<forall>t \<in> set (fig_traces fig). trace_x t \<noteq> [] \<and> trace_y t \<noteq> []"
  proof
    fix t
    assume "t \<in> set (fig_traces fig)"
    from multi_trace_source [OF g this] obtain rows where ne: "rows \<noteq> []"
      and mt: "market_trace rnd is_quarterly (trace_name t) rows = Inr t"
      by blast
    from market_trace_fields [OF mt] obtain rows' where s: "sorted_rows rows = Inr rows'"
      and x: "labels_of is_quarterly rows' = Inr (trace_x t)"
      and y: "prices_of rnd rows' = Inr (trace_y t)"
      by blast
    have "length (trace_x t) = length rows"
      using labels_of_length [OF x] sorted_rows_length [OF s] by simp
    moreover have "length (trace_y t) = length rows"
      using mapE_length [OF y [unfolded prices_of_def]] sorted_rows_length [OF s] by simp
    ultimately show "trace_x t \<noteq> [] \<and> trace_y t \<noteq> []"
      using ne by auto
  qed
  show "m \<notin> set (map trace_name (fig_traces fig))"
    if d: "distinct (map fst market_data)" and e: "(m, []) \<in> set market_data" for m
  proof
    assume "m \<in> set (map trace_name (fig_traces fig))"
    then have "m \<in> fst ` set ?ms" using names by simp
    then obtain rows where "(m, rows) \<in> set market_data" "rows \<noteq> []" by auto
    with eq_key_imp_eq_value [OF d e] show False by blast
  qed
qed

text \<open>
  A run of the theorem: of two markets, the one without rows leaves no trace.
\<close>

theorem multi_market_omits_empty_markets_witness:
  "generate_multi_market_chart id
     [(''DAM'', []), (''RTM'', [full_row ''2024-01-01'' (Some 1) None 2500 120 200 180])]
     ''Jan'' True =
   Inr (Some \<lparr>fig_title = ''Market Comparison'', fig_subtitle = ''Jan'',
     fig_traces = [\<lparr>trace_kind = Scatter, trace_name = ''RTM'',
        trace_x = [''2024-01-01 S-1''], trace_y = [PFloat 2.5],
        trace_place = Plain, trace_opacity = None\<rparr>]\<rparr>) \<and>
   distinct (map fst [(''DAM'', []), (''RTM'', [full_row ''2024-01-01'' (Some 1) None 2500 120 200 180])]) \<and>
   (''DAM'', []) \<in> set [(''DAM'', []), (''RTM'', [full_row ''2024-01-01'' (Some 1) None 2500 120 200 180])] \<and>
   ''DAM'' \<notin> set (map trace_name [\<lparr>trace_kind = Scatter, trace_name = ''RTM'',
        trace_x = [''2024-01-01 S-1''], trace_y = [PFloat 2.5],
        trace_place = Plain, trace_opacity = None\<rparr>])"
proof -
  let ?md = "[(''DAM'', []), (''RTM'', [full_row ''2024-01-01'' (Some 1) None 2500 120 200 180])]"
  let ?fig = "\<lparr>fig_title = ''Market Comparison'', fig_subtitle = ''Jan'',
     fig_traces = [\<lparr>trace_kind = Scatter, trace_name = ''RTM'',
        trace_x = [''2024-01-01 S-1''], trace_y = [PFloat 2.5],
        trace_place = Plain, trace_opacity = None\<rparr>]\<rparr>"
  have h1: "generate_multi_market_chart id ?md ''Jan'' True = Inr (Some ?fig)"
    by (simp add: run_defs)
  have h2: "distinct (map fst ?md)" by simp
  have h3: "(''DAM'', []) \<in> set ?md" by simp
  from multi_market_omits_empty_markets [OF h1] h2 h3
  have "''DAM'' \<notin> set (map trace_name (fig_traces ?fig))" by blast
  with h1 h2 h3 show ?thesis by simp
qed

text \<open>
  C3 as stated fails: for a mapping whose only market has no rows, no market yields a
  series, yet the result is a figure (without traces) and not \<^verbatim>\<open>None\<close>.
\<close>

theorem multi_market_all_empty_counterexample:
  "generate_multi_market_chart id [(''DAM'', [])] ''Jan'' True =
     Inr (Some \<lparr>fig_title = ''Market Comparison'', fig_subtitle = ''Jan'', fig_traces = []\<rparr>) \<and>
   generate_multi_market_chart id [(''DAM'', [])] ''Jan'' True \<noteq> Inr None"
  by (simp add: run_defs)


text \<open>
  C4. The claim has the result hold the bar pairs of the included markets whenever some
  market is included. The code skips the markets without current volume and returns
  \<^verbatim>\<open>None\<close> when it skips all three, as claimed. For an included market it adds the
  current-year volume bar and then evaluates the hover template of the previous-year
  bar, \<^verbatim>\<open>"%{x} {year_minus}: ...".format(year_minus=year-1)\<close> (line 218), which raises
  \<^verbatim>\<open>KeyError('x')\<close>: no figure is returned. Below, DAM has zero current volume and a
  previous year, and RTM has current volume 7: with RTM the call raises, without it the
  result is \<^verbatim>\<open>None\<close>.
\<close>

theorem yoy_with_included_market_raises_key_error:
  "generate_comparison_chart
     (Map.empty(''DAM'' \<mapsto> \<lparr>total_volume_gwh = Some (PInt 0), twap = Some (PInt 5)\<rparr>,
                ''RTM'' \<mapsto> \<lparr>total_volume_gwh = Some (PInt 7), twap = Some (PInt 3)\<rparr>))
     (Map.empty(''DAM'' \<mapsto> \<lparr>total_volume_gwh = Some (PInt 10), twap = Some (PInt 4)\<rparr>))
     2024 = Inl (KeyError ''x'') \<and>
   generate_comparison_chart
     (Map.empty(''DAM'' \<mapsto> \<lparr>total_volume_gwh = Some (PInt 0), twap = Some (PInt 5)\<rparr>))
     (Map.empty(''DAM'' \<mapsto> \<lparr>total_volume_gwh = Some (PInt 10), twap = Some (PInt 4)\<rparr>))
     2024 = Inr None"
  by (simp add: yoy_defs)


text \<open>
  C5. The claim holds of every non-empty row collection; the interval index of a row may
  be absent. For two quarter-hourly rows of which the second has no \<^verbatim>\<open>slot_index\<close> the
  sort succeeds, and the label comprehension of line 82 raises
  \<^verbatim>\<open>KeyError('slot_index')\<close>: the call produces no sequence at all. Under the hourly
  flag the same rows give the five sequences, of length 2 and aligned with the sorted
  rows.
\<close>

theorem quarterly_rows_without_slot_index_give_no_sequences:
  "sorted_rows [full_row ''2024-01-01'' (Some 1) None 2500 120 200 180,
                full_row ''2024-01-01'' None None 2600 100 210 170] =
     Inr [full_row ''2024-01-01'' None None 2600 100 210 170,
          full_row ''2024-01-01'' (Some 1) None 2500 120 200 180] \<and>
   generate_market_chart id ''RTM'' ''Jan''
     [full_row ''2024-01-01'' (Some 1) None 2500 120 200 180,
      full_row ''2024-01-01'' None None 2600 100 210 170] True = Inl (KeyError ''slot_index'') \<and>
   generate_market_chart id ''RTM'' ''Jan''
     [full_row ''2024-01-01'' (Some 1) None 2500 120 200 180,
      full_row ''2024-01-01'' None None 2600 100 210 170] False =
     Inr (Some \<lparr>fig_title = ''RTM Price & Volume'', fig_subtitle = ''Jan'',
       fig_traces =
         [\<lparr>trace_kind = Bar, trace_name = ''Volume'',
           trace_x = [''2024-01-01 H-0'', ''2024-01-01 H-0''], trace_y = [PFloat 25, PFloat 30],
           trace_place = SecondaryY False, trace_opacity = None\<rparr>,
          \<lparr>trace_kind = Scatter, trace_name = ''Buy Bids'',
           trace_x = [''2024-01-01 H-0'', ''2024-01-01 H-0''], trace_y = [PInt 210, PInt 200],
           trace_place = SecondaryY True, trace_opacity = None\<rparr>,
          \<lparr>trace_kind = Scatter, trace_name = ''Sell Bids'',
           trace_x = [''2024-01-01 H-0'', ''2024-01-01 H-0''], trace_y = [PInt 170, PInt 180],
           trace_place = SecondaryY True, trace_opacity = None\<rparr>,
          \<lparr>trace_kind = Scatter, trace_name = ''Price'',
           trace_x = [''2024-01-01 H-0'', ''2024-01-01 H-0''], trace_y = [PFloat 2.6, PFloat 2.5],
           trace_place = SecondaryY True, trace_opacity = None\<rparr>]\<rparr>)"
  by (simp add: run_defs)


text \<open>
  C6. In both builders the price of every row is the float quotient of its
  \<^verbatim>\<open>price_avg\<close> by 1000, that is the exact quotient rounded once by the division
  itself, with nothing else applied: no display rounding, no clamping, no special case
  for zero or negative values. The Price trace of the single-market figure and every
  trace of the multi-market figure hold these quotients in the order of the sorted rows.
\<close>

theorem price_is_price_avg_over_1000:
  "(generate_market_chart rnd market_name time_label rows is_quarterly = Inr (Some fig) \<longrightarrow>
      (\<exists>rows' pa. sorted_rows rows = Inr rows' \<and> map price_avg rows' = map Some pa \<and>
         length (fig_traces fig) = 4 \<and> trace_name (fig_traces fig ! 3) = ''Price'' \<and>
         trace_y (fig_traces fig ! 3) = map (\<lambda>p. PFloat (rnd (to_float rnd p / 1000))) pa)) \<and>
   (generate_multi_market_chart rnd market_data time_label is_quarterly = Inr (Some mfig) \<longrightarrow>
      (\<forall>t \<in> set (fig_traces mfig). \<exists>mrows rows' pa.
         (trace_name t, mrows) \<in> set market_data \<and> sorted_rows mrows = Inr rows' \<and>
         map price_avg rows' = map Some pa \<and>
         trace_y t = map (\<lambda>p. PFloat (rnd (to_float rnd p / 1000))) pa))"
proof (intro conjI impI ballI)
  assume "generate_market_chart rnd market_name time_label rows is_quarterly = Inr (Some fig)"
  then obtain s rows' where s: "sorted_rows rows = Inr rows'"
    and f: "fig_traces fig = market_traces s"
    and p: "prices_of rnd rows' = Inr (prices s)"
    by (auto simp: generate_market_chart_Some data_prep_Inr)
  from p obtain pa where pa: "map price_avg rows' = map Some pa"
    and ps: "prices s = map (\<lambda>p. py_truediv rnd p 1000) pa"
    by (auto simp: prices_of_iff)
  have "length (fig_traces fig) = 4 \<and> trace_name (fig_traces fig ! 3) = ''Price'' \<and>
         trace_y (fig_traces fig ! 3) = map (\<lambda>p. PFloat (rnd (to_float rnd p / 1000))) pa"
    unfolding f by (simp add: market_traces_def ps py_truediv_def)
  with s pa show "\<exists>rows' pa. sorted_rows rows = Inr rows' \<and> map price_avg rows' = map Some pa \<and>
         length (fig_traces fig) = 4 \<and> trace_name (fig_traces fig ! 3) = ''Price'' \<and>
         trace_y (fig_traces fig ! 3) = map (\<lambda>p. PFloat (rnd (to_float rnd p / 1000))) pa"
    by blast
next
  fix t
  assume g: "generate_multi_market_chart rnd market_data time_label is_quarterly = Inr (Some mfig)"
    and t: "t \<in> set (fig_traces mfig)"
  from multi_trace_source [OF g t] obtain mrows where m: "(trace_name t, mrows) \<in> set market_data"
    and mt: "market_trace rnd is_quarterly (trace_name t) mrows = Inr t"
    by blast
  from market_trace_fields [OF mt] obtain rows' where s: "sorted_rows mrows = Inr rows'"
    and p: "prices_of rnd rows' = Inr (trace_y t)"
    by blast
  from p obtain pa where pa: "map price_avg rows' = map Some pa"
    and "trace_y t = map (\<lambda>p. py_truediv rnd p 1000) pa"
    by (auto simp: prices_of_iff)
  then have "trace_y t = map (\<lambda>p. PFloat (rnd (to_float rnd p / 1000))) pa"
    by (simp add: py_truediv_def)
  with m s pa show "\<exists>mrows rows' pa.
         (trace_name t, mrows) \<in> set market_data \<and> sorted_rows mrows = Inr rows' \<and>
         map price_avg rows' = map Some pa \<and>
         trace_y t = map (\<lambda>p. PFloat (rnd (to_float rnd p / 1000))) pa"
    by blast
qed

text \<open>
  A run of the theorem with a negative and a zero price: the prices are \<open>-2.5\<close> and \<open>0\<close>.
\<close>

theorem price_is_price_avg_over_1000_witness:
  "generate_market_chart id ''DAM'' ''Jan''
     [full_row ''2024-01-01'' None (Some 1) (- 2500) 120 200 180,
      full_row ''2024-01-01'' None (Some 2) 0 100 210 170] False =
   Inr (Some \<lparr>fig_title = ''DAM Price & Volume'', fig_subtitle = ''Jan'',
     fig_traces = market_traces
       \<lparr>x_vals = [''2024-01-01 H-1'', ''2024-01-01 H-2''], volumes = [PFloat 30, PFloat 25],
        prices = [PFloat (- 2.5), PFloat 0], buy_bids = [PInt 200, PInt 210],
        sell_bids = [PInt 180, PInt 170]\<rparr>\<rparr>) \<and>
   generate_multi_market_chart id
     [(''DAM'', [full_row ''2024-01-01'' None (Some 1) (- 2500) 120 200 180,
                 full_row ''2024-01-01'' None (Some 2) 0 100 210 170])] ''Jan'' False =
   Inr (Some \<lparr>fig_title = ''Market Comparison'', fig_subtitle = ''Jan'',
     fig_traces = [\<lparr>trace_kind = Scatter, trace_name = ''DAM'',
        trace_x = [''2024-01-01 H-1'', ''2024-01-01 H-2''], trace_y = [PFloat (- 2.5), PFloat 0],
        trace_place = Plain, trace_opacity = None\<rparr>]\<rparr>) \<and>
   (\<exists>rows' pa.
      sorted_rows [full_row ''2024-01-01'' None (Some 1) (- 2500) 120 200 180,
                   full_row ''2024-01-01'' None (Some 2) 0 100 210 170] = Inr rows' \<and>
      map price_avg rows' = map Some pa \<and>
      [PFloat (- 2.5), PFloat 0] = map (\<lambda>p. PFloat (id (to_float id p / 1000))) pa)"
proof -
  let ?rows = "[full_row ''2024-01-01'' None (Some 1) (- 2500) 120 200 180,
                full_row ''2024-01-01'' None (Some 2) 0 100 210 170]"
  let ?fig = "\<lparr>fig_title = ''DAM Price & Volume'', fig_subtitle = ''Jan'',
     fig_traces = market_traces
       \<lparr>x_vals = [''2024-01-01 H-1'', ''2024-01-01 H-2''], volumes = [PFloat 30, PFloat 25],
        prices = [PFloat (- 2.5), PFloat 0], buy_bids = [PInt 200, PInt 210],
        sell_bids = [PInt 180, PInt 170]\<rparr>\<rparr>"
  let ?mfig = "\<lparr>fig_title = ''Market Comparison'', fig_subtitle = ''Jan'',
     fig_traces = [\<lparr>trace_kind = Scatter, trace_name = ''DAM'',
        trace_x = [''2024-01-01 H-1'', ''2024-01-01 H-2''], trace_y = [PFloat (- 2.5), PFloat 0],
        trace_place = Plain, trace_opacity = None\<rparr>]\<rparr>"
  have h1: "generate_market_chart id ''DAM'' ''Jan'' ?rows False = Inr (Some ?fig)"
    by (simp add: run_defs)
  have h2: "generate_multi_market_chart id [(''DAM'', ?rows)] ''Jan'' False = Inr (Some ?mfig)"
    by (simp add: run_defs)
  from price_is_price_avg_over_1000
    [of id "''DAM''" "''Jan''" ?rows False ?fig "[(''DAM'', ?rows)]" ?mfig] h1
  obtain rows' pa where "sorted_rows ?rows = Inr rows'" "map price_avg rows' = map Some pa"
    "trace_y (fig_traces ?fig ! 3) = map (\<lambda>p. PFloat (id (to_float id p / 1000))) pa"
    by blast
  then have "\<exists>rows' pa. sorted_rows ?rows = Inr rows' \<and> map price_avg rows' = map Some pa \<and>
      [PFloat (- 2.5), PFloat 0] = map (\<lambda>p. PFloat (id (to_float id p / 1000))) pa"
    by (intro exI [of _ rows'] exI [of _ pa]) (simp add: market_traces_def)
  with h1 h2 show ?thesis by blast
qed


text \<open>
  C7. The quarterly conversion \<^verbatim>\<open>mcv_mw * 0.25\<close> and the hourly conversion
  \<^verbatim>\<open>mcv_mw / 4.0\<close> give the same float for every \<^verbatim>\<open>mcv_mw\<close>: both round the same
  exact value. So the volume of a row, the volume sequence of a row collection and the
  Volume trace of the figure are the same under either value of \<^verbatim>\<open>is_quarterly\<close>.
\<close>

theorem quarterly_and_hourly_volume_equal:
  "py_mul rnd m 0.25 = py_truediv rnd m 4.0 \<and>
   volume_mwh rnd True m = volume_mwh rnd False m \<and>
   volumes_of rnd True rows = volumes_of rnd False rows \<and>
   (generate_market_chart rnd market_name time_label rows True = Inr (Some fq) \<and>
    generate_market_chart rnd market_name time_label rows False = Inr (Some fh) \<longrightarrow>
      trace_name (fig_traces fq ! 0) = ''Volume'' \<and> trace_name (fig_traces fh ! 0) = ''Volume'' \<and>
      trace_y (fig_traces fq ! 0) = trace_y (fig_traces fh ! 0))"
proof (intro conjI impI)
  show e: "py_mul rnd m 0.25 = py_truediv rnd m 4.0"
    by (simp add: py_mul_def py_truediv_def)
  have v: "volume_mwh rnd True = volume_mwh rnd False"
    by (rule ext) (simp add: volume_mwh_def py_mul_def py_truediv_def)
  then show "volume_mwh rnd True m = volume_mwh rnd False m" by simp
  show w: "volumes_of rnd True rows = volumes_of rnd False rows" for rows
    by (simp add: volumes_of_def v)
  assume a: "generate_market_chart rnd market_name time_label rows True = Inr (Some fq) \<and>
    generate_market_chart rnd market_name time_label rows False = Inr (Some fh)"
  then obtain sq rq where q: "fig_traces fq = market_traces sq" "sorted_rows rows = Inr rq"
    "volumes_of rnd True rq = Inr (volumes sq)"
    by (auto simp: generate_market_chart_Some data_prep_Inr)
  from a obtain sh rh where h: "fig_traces fh = market_traces sh" "sorted_rows rows = Inr rh"
    "volumes_of rnd False rh = Inr (volumes sh)"
    by (auto simp: generate_market_chart_Some data_prep_Inr)
  from q h w [of rq] have "volumes sq = volumes sh" by simp
  with q h show "trace_name (fig_traces fq ! 0) = ''Volume''"
    "trace_name (fig_traces fh ! 0) = ''Volume''"
    "trace_y (fig_traces fq ! 0) = trace_y (fig_traces fh ! 0)"
    by (simp_all add: market_traces_def)
qed

text \<open>
  A run of the theorem: one row with both indices, built under both flags; the volume is
  30 either way.
\<close>

theorem quarterly_and_hourly_volume_equal_witness:
  "generate_market_chart id ''RTM'' ''Jan''
     [full_row ''2024-01-01'' (Some 1) (Some 1) 2500 120 200 180] True =
   Inr (Some \<lparr>fig_title = ''RTM Price & Volume'', fig_subtitle = ''Jan'',
     fig_traces = market_traces
       \<lparr>x_vals = [''2024-01-01 S-1''], volumes = [PFloat 30], prices = [PFloat 2.5],
        buy_bids = [PInt 200], sell_bids = [PInt 180]\<rparr>\<rparr>) \<and>
   generate_market_chart id ''RTM'' ''Jan''
     [full_row ''2024-01-01'' (Some 1) (Some 1) 2500 120 200 180] False =
   Inr (Some \<lparr>fig_title = ''RTM Price & Volume'', fig_subtitle = ''Jan'',
     fig_traces = market_traces
       \<lparr>x_vals = [''2024-01-01 H-1''], volumes = [PFloat 30], prices = [PFloat 2.5],
        buy_bids = [PInt 200], sell_bids = [PInt 180]\<rparr>\<rparr>) \<and>
   py_mul id (PInt 120) 0.25 = py_truediv id (PInt 120) 4.0 \<and>
   trace_y (market_traces
       \<lparr>x_vals = [''2024-01-01 S-1''], volumes = [PFloat 30], prices = [PFloat 2.5],
        buy_bids = [PInt 200], sell_bids = [PInt 180]\<rparr> ! 0) =
   trace_y (market_traces
       \<lparr>x_vals = [''2024-01-01 H-1''], volumes = [PFloat 30], prices = [PFloat 2.5],
        buy_bids = [PInt 200], sell_bids = [PInt 180]\<rparr> ! 0)"
proof -
  let ?rows = "[full_row ''2024-01-01'' (Some 1) (Some 1) 2500 120 200 180]"
  let ?sq = "\<lparr>x_vals = [''2024-01-01 S-1''], volumes = [PFloat 30], prices = [PFloat 2.5],
        buy_bids = [PInt 200], sell_bids = [PInt 180]\<rparr>"
  let ?sh = "\<lparr>x_vals = [''2024-01-01 H-1''], volumes = [PFloat 30], prices = [PFloat 2.5],
        buy_bids = [PInt 200], sell_bids = [PInt 180]\<rparr>"
  let ?fq = "\<lparr>fig_title = ''RTM Price & Volume'', fig_subtitle = ''Jan'',
     fig_traces = market_traces ?sq\<rparr>"
  let ?fh = "\<lparr>fig_title = ''RTM Price & Volume'', fig_subtitle = ''Jan'',
     fig_traces = market_traces ?sh\<rparr>"
  have h1: "generate_market_chart id ''RTM'' ''Jan'' ?rows True = Inr (Some ?fq)"
    by (simp add: run_defs)
  have h2: "generate_market_chart id ''RTM'' ''Jan'' ?rows False = Inr (Some ?fh)"
    by (simp add: run_defs)
  note t = quarterly_and_hourly_volume_equal
    [of id "PInt 120" ?rows "''RTM''" "''Jan''" ?fq ?fh]
  from t have c1: "py_mul id (PInt 120) 0.25 = py_truediv id (PInt 120) 4.0" by blast
  from t h1 h2 have "trace_y (fig_traces ?fq ! 0) = trace_y (fig_traces ?fh ! 0)" by blast
  then have c2: "trace_y (market_traces ?sq ! 0) = trace_y (market_traces ?sh ! 0)" by simp
  from h1 h2 c1 c2 show ?thesis by blast
qed





text \<open>
  C9. For an empty input the result is the explicit absent value and not an exception:
  the single-market builder returns \<^verbatim>\<open>None\<close> for an empty row collection and the
  multi-market builder returns \<^verbatim>\<open>None\<close> for an empty mapping, for every rounding,
  name, label and value of \<^verbatim>\<open>is_quarterly\<close>.
\<close>

theorem empty_input_gives_None:
  "generate_market_chart rnd market_name time_label [] is_quarterly = Inr None \<and>
   generate_multi_market_chart rnd [] time_label is_quarterly = Inr None"
  by (simp add: generate_market_chart_def generate_multi_market_chart_def)


text \<open>
  C10. The claim has the previous-year bars of an included market emitted with value 0
  when the previous-year data is missing, without an exception. The values would be 0
  (\<^verbatim>\<open>prev.get(key, 0)\<close> on the fallback dictionary), but the keyword arguments of the
  previous-year volume bar include the hover template of line 218, whose formatting
  raises \<^verbatim>\<open>KeyError('x')\<close> before the bar is built. Below, DAM has current volume 12 and
  the previous mapping is empty.
\<close>

theorem yoy_previous_year_bar_raises_key_error:
  "py_format prev_volume_template [(''year_minus'', 2024 - 1)] = Inl (KeyError ''x'') \<and>
   market_bars \<lparr>total_volume_gwh = Some (PInt 12), twap = Some (PInt 5)\<rparr> empty_summary
     2024 ''DAM'' [] = Inl (KeyError ''x'') \<and>
   generate_comparison_chart
     (Map.empty(''DAM'' \<mapsto> \<lparr>total_volume_gwh = Some (PInt 12), twap = Some (PInt 5)\<rparr>))
     Map.empty 2024 = Inl (KeyError ''x'')"
  by (simp add: yoy_defs)


end
